theory Spec2Isabelle
  imports Main "HOL-Library.Word" "HOL-Library.Stream"
begin

unbundle bit_operations_syntax

section \<open>Byte buffers\<close>

text \<open>
  A Node \<open>Buffer\<close> and a \<open>Uint8Array\<close> are both sequences of octets; the operations
  below never depend on the difference between the two, so both are byte lists.
\<close>

type_synonym byte = "8 word"
type_synonym bytes = "byte list"
type_synonym u32 = "32 word"

text \<open>
  \<open>buf.subarray(start, stop)\<close> for indices that are not negative: both are clamped to
  the length and an empty view is returned when \<open>stop \<le> start\<close>.
  \<open>buf.subarray(start)\<close> runs to the last byte of the buffer.
\<close>

definition subarray :: "nat \<Rightarrow> nat \<Rightarrow> bytes \<Rightarrow> bytes" where
  "subarray start stop xs = take (stop - start) (drop start xs)"

definition subarray_from :: "nat \<Rightarrow> bytes \<Rightarrow> bytes" where
  "subarray_from start xs = drop start xs"

section \<open>Errors\<close>

text \<open>
  The source throws plain \<open>Error\<close> objects that differ in their message only. Each
  throw site is one constructor, named after the kind of failure it reports:
  \<^item> \<open>InvalidKeyLength\<close>: "Encryption key must be 32 bytes (256 bits)",
    "Decryption key must be 32 bytes (256 bits)", "Document key must be 32 bytes",
    "Secret key must be 32 bytes";
  \<^item> \<open>InvalidSeedLength\<close>: "Seed must be 32 bytes";
  \<^item> \<open>InvalidEncoding\<close>: "Invalid public key: must be 64 hex characters (32 bytes)";
  \<^item> \<open>AuthenticationFailed\<close>: the error \<open>decipher.final()\<close> raises when the tag does
    not verify;
  \<^item> \<open>UnwrapFailed\<close>: "Failed to decrypt document key - invalid key or corrupted data";
  \<^item> \<open>MalformedPayload\<close>: "Packed data too short (minimum 28 bytes for IV + authTag)";
  \<^item> \<open>ContractNotConnected\<close>: "Contract not connected";
  \<^item> \<open>BadSize\<close>: the size checks of the tweetnacl entry points ("bad public key size",
    "bad secret key size", "bad nonce size").
\<close>

datatype error =
    InvalidKeyLength
  | InvalidSeedLength
  | InvalidEncoding
  | AuthenticationFailed
  | UnwrapFailed
  | MalformedPayload
  | ContractNotConnected
  | BadSize

section \<open>The random source\<close>

text \<open>
  \<open>crypto.randomBytes(n)\<close> reads the process-wide random source and always returns
  exactly \<open>n\<close> bytes. The source is an explicit state: the stream of bytes still to
  be drawn. A function that draws returns the rest of the stream with its result.
\<close>

type_synonym rng = "byte stream"

definition randomBytes :: "nat \<Rightarrow> rng \<Rightarrow> bytes \<times> rng" where
  "randomBytes n r = (stake n r, sdrop n r)"

section \<open>SHA-256\<close>

text \<open>
  \<open>createHash("sha256")\<close> of Node's \<open>crypto\<close> module is SHA-256 as FIPS 180-4 defines
  it: the message is padded to a multiple of 64 bytes, cut into blocks of sixteen
  big-endian 32-bit words, and each block is run through 64 rounds of the compression
  function. \<open>.update(a).update(b).digest()\<close> hashes the concatenation \<open>a @ b\<close>.
  The round constants and the initial state are written in decimal.
\<close>

definition sha_ch :: "u32 \<Rightarrow> u32 \<Rightarrow> u32 \<Rightarrow> u32" where
  "sha_ch x y z = (x AND y) XOR (NOT x AND z)"

definition sha_maj :: "u32 \<Rightarrow> u32 \<Rightarrow> u32 \<Rightarrow> u32" where
  "sha_maj x y z = (x AND y) XOR (x AND z) XOR (y AND z)"

definition big_sigma0 :: "u32 \<Rightarrow> u32" where
  "big_sigma0 x = word_rotr 2 x XOR word_rotr 13 x XOR word_rotr 22 x"

definition big_sigma1 :: "u32 \<Rightarrow> u32" where
  "big_sigma1 x = word_rotr 6 x XOR word_rotr 11 x XOR word_rotr 25 x"

definition small_sigma0 :: "u32 \<Rightarrow> u32" where
  "small_sigma0 x = word_rotr 7 x XOR word_rotr 18 x XOR drop_bit 3 x"

definition small_sigma1 :: "u32 \<Rightarrow> u32" where
  "small_sigma1 x = word_rotr 17 x XOR word_rotr 19 x XOR drop_bit 10 x"

definition sha256_k :: "u32 list" where
  "sha256_k =
    [1116352408, 1899447441, 3049323471, 3921009573, 961987163, 1508970993,
     2453635748, 2870763221, 3624381080, 310598401, 607225278, 1426881987,
     1925078388, 2162078206, 2614888103, 3248222580, 3835390401, 4022224774,
     264347078, 604807628, 770255983, 1249150122, 1555081692, 1996064986,
     2554220882, 2821834349, 2952996808, 3210313671, 3336571891, 3584528711,
     113926993, 338241895, 666307205, 773529912, 1294757372, 1396182291,
     1695183700, 1986661051, 2177026350, 2456956037, 2730485921, 2820302411,
     3259730800, 3345764771, 3516065817, 3600352804, 4094571909, 275423344,
     430227734, 506948616, 659060556, 883997877, 958139571, 1322822218,
     1537002063, 1747873779, 1955562222, 2024104815, 2227730452, 2361852424,
     2428436474, 2756734187, 3204031479, 3329325298]"

type_synonym sha_state = "u32 \<times> u32 \<times> u32 \<times> u32 \<times> u32 \<times> u32 \<times> u32 \<times> u32"

definition sha256_init :: sha_state where
  "sha256_init =
    (1779033703, 3144134277, 1013904242, 2773480762, 1359893119, 2600822924, 528734635, 1541459225)"

text \<open>Big-endian conversions between words and bytes.\<close>

definition be32_of_bytes :: "bytes \<Rightarrow> u32" where
  "be32_of_bytes bs = foldl (\<lambda>acc b. push_bit 8 acc OR ucast b) 0 bs"

definition be32_bytes :: "u32 \<Rightarrow> bytes" where
  "be32_bytes w = [ucast (drop_bit 24 w), ucast (drop_bit 16 w), ucast (drop_bit 8 w), ucast w]"

definition be64_bytes :: "64 word \<Rightarrow> bytes" where
  "be64_bytes w = map (\<lambda>i. ucast (drop_bit (8 * (7 - i)) w)) [0..<8]"

text \<open>
  Padding: one byte \<open>0x80\<close>, then the fewest zero bytes that make the length 56 modulo
  64, then the bit length of the message as a 64-bit big-endian number.
\<close>

definition sha256_pad :: "bytes \<Rightarrow> bytes" where
  "sha256_pad m =
     m @ [0x80] @ replicate ((119 - length m mod 64) mod 64) 0 @ be64_bytes (word_of_nat (8 * length m))"

fun chunks :: "nat \<Rightarrow> nat \<Rightarrow> 'a list \<Rightarrow> 'a list list" where
  "chunks 0 sz xs = []"
| "chunks (Suc n) sz xs = take sz xs # chunks n sz (drop sz xs)"

text \<open>The message schedule: sixteen words of the block, extended to sixty-four.\<close>

fun extend_schedule :: "nat \<Rightarrow> u32 list \<Rightarrow> u32 list" where
  "extend_schedule 0 w = w"
| "extend_schedule (Suc n) w =
     (let t = length w in
      extend_schedule n
        (w @ [small_sigma1 (w ! (t - 2)) + w ! (t - 7) + small_sigma0 (w ! (t - 15)) + w ! (t - 16)]))"

definition schedule :: "bytes \<Rightarrow> u32 list" where
  "schedule block = extend_schedule 48 (map be32_of_bytes (chunks 16 4 block))"

fun sha_round :: "sha_state \<Rightarrow> u32 \<times> u32 \<Rightarrow> sha_state" where
  "sha_round (a, b, c, d, e, f, g, h) (k, w) =
     (let t1 = h + big_sigma1 e + sha_ch e f g + k + w;
          t2 = big_sigma0 a + sha_maj a b c
      in (t1 + t2, a, b, c, d + t1, e, f, g))"

fun add_state :: "sha_state \<Rightarrow> sha_state \<Rightarrow> sha_state" where
  "add_state (a, b, c, d, e, f, g, h) (a', b', c', d', e', f', g', h') =
     (a + a', b + b', c + c', d + d', e + e', f + f', g + g', h + h')"

definition compress :: "sha_state \<Rightarrow> bytes \<Rightarrow> sha_state" where
  "compress s block = add_state s (foldl sha_round s (zip sha256_k (schedule block)))"

fun state_bytes :: "sha_state \<Rightarrow> bytes" where
  "state_bytes (a, b, c, d, e, f, g, h) =
     be32_bytes a @ be32_bytes b @ be32_bytes c @ be32_bytes d @
     be32_bytes e @ be32_bytes f @ be32_bytes g @ be32_bytes h"

definition sha256 :: "bytes \<Rightarrow> bytes" where
  "sha256 m =
     (let p = sha256_pad m
      in state_bytes (foldl compress sha256_init (chunks (length p div 64) 64 p)))"

section \<open>Hexadecimal text\<close>

text \<open>
  \<open>Buffer.from(s, "hex")\<close> reads \<open>s\<close> two characters at a time; it stops at the first
  pair that is not two hexadecimal digits (either case) and drops a trailing single
  character. It never throws: what was decoded up to that point is the result.
  Strings are lists of 8-bit characters here; \<open>s.length\<close> is the length of the list.
\<close>

definition unhex :: "char \<Rightarrow> nat option" where
  "unhex c =
     (let n = (of_char c :: nat) in
      if 48 \<le> n \<and> n \<le> 57 then Some (n - 48)
      else if 97 \<le> n \<and> n \<le> 102 then Some (n - 87)
      else if 65 \<le> n \<and> n \<le> 70 then Some (n - 55)
      else None)"

fun hex_decode :: "string \<Rightarrow> bytes" where
  "hex_decode (a # b # rest) =
     (case unhex a of
        None \<Rightarrow> []
      | Some hi \<Rightarrow>
          (case unhex b of
             None \<Rightarrow> []
           | Some lo \<Rightarrow> word_of_nat (16 * hi + lo) # hex_decode rest))"
| "hex_decode _ = []"

section \<open>Symmetric encryption (utils/encryption.ts)\<close>

record EncryptedData =
  ciphertext :: bytes
  iv :: bytes
  authTag :: bytes

text \<open>
  The AES-256-GCM primitive is OpenSSL's, reached through \<open>createCipheriv\<close> and
  \<open>createDecipheriv\<close>; it is not part of the repository and is a parameter of the
  model.
  \<^item> \<open>gcm_seal key iv data\<close> is what \<open>update(data)\<close>, \<open>final()\<close> and \<open>getAuthTag()\<close>
    produce on a cipher made from \<open>key\<close> and \<open>iv\<close>: the ciphertext and the tag.
  \<^item> \<open>gcm_open key iv tag ct\<close> is what \<open>setAuthTag(tag)\<close>, \<open>update(ct)\<close> and
    \<open>final()\<close> produce on a decipher made from \<open>key\<close> and \<open>iv\<close>: the plaintext, or
    \<open>None\<close> when the decipher throws because the tag does not verify.
\<close>

record aes_gcm =
  gcm_seal :: "bytes \<Rightarrow> bytes \<Rightarrow> bytes \<Rightarrow> bytes \<times> bytes"
  gcm_open :: "bytes \<Rightarrow> bytes \<Rightarrow> bytes \<Rightarrow> bytes \<Rightarrow> bytes option"

definition generateDocumentKey :: "rng \<Rightarrow> bytes \<times> rng" where
  "generateDocumentKey r = randomBytes 32 r"

definition encryptData :: "aes_gcm \<Rightarrow> bytes \<Rightarrow> bytes \<Rightarrow> rng \<Rightarrow> (error + EncryptedData) \<times> rng" where
  "encryptData A data key r =
     (if length key \<noteq> 32 then (Inl InvalidKeyLength, r)
      else
        (case randomBytes 12 r of
           (iv0, r') \<Rightarrow>
             (case gcm_seal A key iv0 data of
                (ct, tag) \<Rightarrow> (Inr \<lparr>ciphertext = ct, iv = iv0, authTag = tag\<rparr>, r'))))"

definition decryptData :: "aes_gcm \<Rightarrow> EncryptedData \<Rightarrow> bytes \<Rightarrow> error + bytes" where
  "decryptData A encryptedData key =
     (if length key \<noteq> 32 then Inl InvalidKeyLength
      else
        (case gcm_open A key (iv encryptedData) (authTag encryptedData) (ciphertext encryptedData) of
           None \<Rightarrow> Inl AuthenticationFailed
         | Some plaintext \<Rightarrow> Inr plaintext))"

definition encryptFile :: "aes_gcm \<Rightarrow> bytes \<Rightarrow> bytes \<Rightarrow> rng \<Rightarrow> (error + EncryptedData) \<times> rng" where
  "encryptFile A fileData key r = encryptData A fileData key r"

definition decryptFile :: "aes_gcm \<Rightarrow> EncryptedData \<Rightarrow> bytes \<Rightarrow> error + bytes" where
  "decryptFile A encryptedData key = decryptData A encryptedData key"

definition computeContentHash :: "bytes \<Rightarrow> bytes" where
  "computeContentHash data = sha256 data"

definition packEncryptedData :: "EncryptedData \<Rightarrow> bytes" where
  "packEncryptedData encryptedData =
     iv encryptedData @ authTag encryptedData @ ciphertext encryptedData"

definition unpackEncryptedData :: "bytes \<Rightarrow> error + EncryptedData" where
  "unpackEncryptedData packed =
     (if length packed < 28 then Inl MalformedPayload
      else Inr \<lparr>ciphertext = subarray_from 28 packed,
                iv = subarray 0 12 packed,
                authTag = subarray 12 28 packed\<rparr>)"

section \<open>Key pairs and key wrapping (utils/keys.ts, the second module in utils/encryption.ts)\<close>

record DocumentKeyPair =
  publicKey :: bytes
  secretKey :: bytes

record WrappedKey =
  encryptedKey :: bytes
  nonce :: bytes
  senderPublicKey :: bytes

text \<open>
  The tweetnacl library is not part of the repository. Its three low-level primitives
  are parameters of the model:
  \<^item> \<open>crypto_scalarmult_base sk\<close>: the X25519 public key of the secret key \<open>sk\<close>;
  \<^item> \<open>crypto_box msg n pk sk\<close>: the X25519 + XSalsa20-Poly1305 box of \<open>msg\<close>;
  \<^item> \<open>crypto_box_open box n pk sk\<close>: the message, or \<open>None\<close> (JavaScript \<open>null\<close>) when
    the box does not authenticate.
  The entry points the source calls, written out below, check sizes first and throw on
  a key that is not 32 bytes or a nonce that is not 24 bytes:
  \<open>nacl.box\<close>, \<open>nacl.box.open\<close>, \<open>nacl.box.keyPair\<close> and
  \<open>nacl.box.keyPair.fromSecretKey\<close>. The last one returns a copy of its argument as
  the secret key and \<open>crypto_scalarmult_base\<close> of it as the public key;
  \<open>nacl.box.keyPair\<close> does the same with 32 fresh random bytes.
\<close>

record nacl =
  crypto_scalarmult_base :: "bytes \<Rightarrow> bytes"
  crypto_box :: "bytes \<Rightarrow> bytes \<Rightarrow> bytes \<Rightarrow> bytes \<Rightarrow> bytes"
  crypto_box_open :: "bytes \<Rightarrow> bytes \<Rightarrow> bytes \<Rightarrow> bytes \<Rightarrow> bytes option"

definition nacl_box_nonceLength :: nat where
  "nacl_box_nonceLength = 24"

definition nacl_box :: "nacl \<Rightarrow> bytes \<Rightarrow> bytes \<Rightarrow> bytes \<Rightarrow> bytes \<Rightarrow> error + bytes" where
  "nacl_box N msg n pk sk =
     (if length pk \<noteq> 32 \<or> length sk \<noteq> 32 \<or> length n \<noteq> 24 then Inl BadSize
      else Inr (crypto_box N msg n pk sk))"

definition nacl_box_open :: "nacl \<Rightarrow> bytes \<Rightarrow> bytes \<Rightarrow> bytes \<Rightarrow> bytes \<Rightarrow> error + bytes option" where
  "nacl_box_open N box n pk sk =
     (if length pk \<noteq> 32 \<or> length sk \<noteq> 32 \<or> length n \<noteq> 24 then Inl BadSize
      else Inr (crypto_box_open N box n pk sk))"

definition nacl_box_keyPair :: "nacl \<Rightarrow> rng \<Rightarrow> DocumentKeyPair \<times> rng" where
  "nacl_box_keyPair N r =
     (case randomBytes 32 r of
        (sk, r') \<Rightarrow> (\<lparr>publicKey = crypto_scalarmult_base N sk, secretKey = sk\<rparr>, r'))"

definition nacl_box_keyPair_fromSecretKey :: "nacl \<Rightarrow> bytes \<Rightarrow> error + DocumentKeyPair" where
  "nacl_box_keyPair_fromSecretKey N sk =
     (if length sk \<noteq> 32 then Inl BadSize
      else Inr \<lparr>publicKey = crypto_scalarmult_base N sk, secretKey = sk\<rparr>)"

definition generateKeyPair :: "nacl \<Rightarrow> rng \<Rightarrow> DocumentKeyPair \<times> rng" where
  "generateKeyPair N r =
     (case nacl_box_keyPair N r of
        (keypair, r') \<Rightarrow> (\<lparr>publicKey = publicKey keypair, secretKey = secretKey keypair\<rparr>, r'))"

text \<open>
  \<open>generateKeyPairFromSeed\<close> draws nothing from the random source and reads no other
  state, so unlike \<open>generateKeyPair\<close> it has no \<open>rng\<close> argument.
\<close>

definition generateKeyPairFromSeed :: "nacl \<Rightarrow> bytes \<Rightarrow> error + DocumentKeyPair" where
  "generateKeyPairFromSeed N seed =
     (if length seed \<noteq> 32 then Inl InvalidSeedLength
      else
        (case nacl_box_keyPair_fromSecretKey N seed of
           Inl e \<Rightarrow> Inl e
         | Inr keypair \<Rightarrow> Inr \<lparr>publicKey = publicKey keypair, secretKey = secretKey keypair\<rparr>))"

definition wrapDocumentKey ::
  "nacl \<Rightarrow> bytes \<Rightarrow> bytes \<Rightarrow> DocumentKeyPair \<Rightarrow> rng \<Rightarrow> (error + WrappedKey) \<times> rng" where
  "wrapDocumentKey N documentKey recipientPublicKey senderKeypair r =
     (if length documentKey \<noteq> 32 then (Inl InvalidKeyLength, r)
      else
        (case randomBytes nacl_box_nonceLength r of
           (n, r') \<Rightarrow>
             (case nacl_box N documentKey n recipientPublicKey (secretKey senderKeypair) of
                Inl e \<Rightarrow> (Inl e, r')
              | Inr enc \<Rightarrow>
                  (Inr \<lparr>encryptedKey = enc, nonce = n,
                        senderPublicKey = publicKey senderKeypair\<rparr>, r'))))"

definition unwrapDocumentKey :: "nacl \<Rightarrow> WrappedKey \<Rightarrow> bytes \<Rightarrow> error + bytes" where
  "unwrapDocumentKey N wrappedKey recipientSecretKey =
     (case nacl_box_open N (encryptedKey wrappedKey) (nonce wrappedKey)
             (senderPublicKey wrappedKey) recipientSecretKey of
        Inl e \<Rightarrow> Inl e
      | Inr None \<Rightarrow> Inl UnwrapFailed
      | Inr (Some decrypted) \<Rightarrow> Inr decrypted)"

definition parsePublicKeyHex :: "string \<Rightarrow> error + bytes" where
  "parsePublicKeyHex hex =
     (if length hex \<noteq> 64 then Inl InvalidEncoding else Inr (hex_decode hex))"

definition computePublicKeyCommitment :: "bytes \<Rightarrow> bytes" where
  "computePublicKeyCommitment pk = sha256 pk"

section \<open>Owner commitment (api/witnesses.ts, the second module in check-balance.ts)\<close>

definition computeOwnerCommitment :: "bytes \<Rightarrow> error + bytes" where
  "computeOwnerCommitment sk =
     (if length sk \<noteq> 32 then Inl InvalidKeyLength else Inr (sha256 sk))"

section \<open>The contract wrapper (api/contract.ts)\<close>

text \<open>
  Of the \<open>DocumentManagerContract\<close> object only the fields the methods below read are
  kept: \<open>contract\<close> (\<open>null\<close> until \<open>connectToDeployed\<close> has loaded the compiled contract
  module) and \<open>isConnected\<close>. Both variants of the class in the repository have the same
  \<open>verifyDocument\<close>: it throws when no contract is loaded and returns \<open>true\<close> otherwise
  (one of them logs the document id first).
\<close>

datatype contract_module = ContractModule

record DocumentManagerContract =
  contract :: "contract_module option"
  isConnected :: bool

definition verifyDocument :: "DocumentManagerContract \<Rightarrow> bytes \<Rightarrow> bytes \<Rightarrow> error + bool" where
  "verifyDocument this documentId providedHash =
     (if contract this = None then Inl ContractNotConnected else Inr True)"

section \<open>Command line actions (cli.ts)\<close>

text \<open>
  The \<open>verify\<close> action, from the point where the contract object has been connected:
  it hashes the file and asks the contract wrapper.
\<close>

definition verify_action :: "DocumentManagerContract \<Rightarrow> bytes \<Rightarrow> string \<Rightarrow> error + bool" where
  "verify_action this fileData docId =
     verifyDocument this (hex_decode docId) (computeContentHash fileData)"

text \<open>
  The document identifier of the \<open>upload\<close> action:
  \<open>createHash("sha256").update(contentHash).update(randomBytes(16)).digest()\<close>.
\<close>

definition upload_documentId :: "bytes \<Rightarrow> rng \<Rightarrow> bytes \<times> rng" where
  "upload_documentId fileData r =
     (case randomBytes 16 r of
        (salt, r') \<Rightarrow> (sha256 (computeContentHash fileData @ salt), r'))"

section \<open>Contracts of the library primitives\<close>

text \<open>
  What the two libraries promise and the round-trip properties rest on. For AES-256-GCM:
  opening, with the same 32-byte key and 12-byte IV, the ciphertext and tag that sealing
  produced returns the plaintext.
\<close>

definition gcm_contract :: "aes_gcm \<Rightarrow> bool" where
  "gcm_contract A \<longleftrightarrow>
     (\<forall>key iv0 p. length key = 32 \<and> length iv0 = 12 \<longrightarrow>
        gcm_open A key iv0 (snd (gcm_seal A key iv0 p)) (fst (gcm_seal A key iv0 p)) = Some p)"

text \<open>
  For the NaCl box: the public key of a 32-byte secret key has 32 bytes, and a box made
  with the sender's secret key for the recipient's public key opens with the recipient's
  secret key and the sender's public key, under the same 24-byte nonce.
\<close>

definition nacl_contract :: "nacl \<Rightarrow> bool" where
  "nacl_contract N \<longleftrightarrow>
     (\<forall>sk. length sk = 32 \<longrightarrow> length (crypto_scalarmult_base N sk) = 32) \<and>
     (\<forall>msg n skS skR. length n = 24 \<and> length skS = 32 \<and> length skR = 32 \<longrightarrow>
        crypto_box_open N
          (crypto_box N msg n (crypto_scalarmult_base N skR) skS) n
          (crypto_scalarmult_base N skS) skR = Some msg)"

text \<open>
  A key pair in the sense of the library: a 32-byte secret key with the public key
  derived from it. This is what \<open>generateKeyPair\<close> and \<open>generateKeyPairFromSeed\<close>
  return.
\<close>

definition is_keypair :: "nacl \<Rightarrow> DocumentKeyPair \<Rightarrow> bool" where
  "is_keypair N kp \<longleftrightarrow>
     length (secretKey kp) = 32 \<and> publicKey kp = crypto_scalarmult_base N (secretKey kp)"

text \<open>
  Two small instances of the primitives that meet the contracts. They stand in for the
  libraries where a property is run on concrete bytes.
\<close>

definition xor_gcm :: aes_gcm where
  "xor_gcm =
     \<lparr>gcm_seal = (\<lambda>key iv0 p. (map (\<lambda>b. b XOR hd key) p, take 16 (key @ iv0))),
      gcm_open = (\<lambda>key iv0 tag ct.
         if tag = take 16 (key @ iv0) then Some (map (\<lambda>b. b XOR hd key) ct) else None)\<rparr>"

definition shift_nacl :: nacl where
  "shift_nacl =
     \<lparr>crypto_scalarmult_base = map (\<lambda>b. b + 9),
      crypto_box = (\<lambda>msg n pk sk.
         replicate 16 (hd pk + hd sk) @ map (\<lambda>b. b XOR (hd pk + hd sk)) msg),
      crypto_box_open = (\<lambda>box n pk sk.
         if take 16 box = replicate 16 (hd pk + hd sk)
         then Some (map (\<lambda>b. b XOR (hd pk + hd sk)) (drop 16 box)) else None)\<rparr>"

section \<open>Basic facts\<close>

lemma be32_bytes_length: "length (be32_bytes w) = 4"
  by (simp add: be32_bytes_def)

lemma state_bytes_length: "length (state_bytes s) = 32"
  by (cases s rule: state_bytes.cases) (simp add: be32_bytes_length)

lemma sha256_length: "length (sha256 m) = 32"
  by (simp add: sha256_def Let_def state_bytes_length)

lemma randomBytes_length: "randomBytes n r = (bs, r') \<Longrightarrow> length bs = n"
  by (auto simp: randomBytes_def)

lemma xor_twice: "map ((\<lambda>b. b XOR k) \<circ> (\<lambda>b. b XOR k)) (xs :: bytes) = xs"
  by (induction xs) (simp_all add: xor.assoc)

lemma xor_gcm_contract: "gcm_contract xor_gcm"
  by (simp add: gcm_contract_def xor_gcm_def xor_twice)

lemma shift_nacl_contract: "nacl_contract shift_nacl"
proof -
  have key: "hd (map (\<lambda>b. b + 9) skR) + hd skS = hd (map (\<lambda>b. b + 9) skS) + hd skR"
    if "length skS = 32" "length skR = 32" for skS skR :: bytes
  proof -
    from that have "skS \<noteq> []" "skR \<noteq> []" by auto
    then show ?thesis by (simp add: hd_map)
  qed
  show ?thesis
    unfolding nacl_contract_def shift_nacl_def
    by (simp add: key xor_twice)
qed

text \<open>Both generators return key pairs in the sense of \<open>is_keypair\<close>.\<close>

lemma generateKeyPairFromSeed_is_keypair:
  "generateKeyPairFromSeed N seed = Inr kp \<Longrightarrow> is_keypair N kp"
  by (auto simp: generateKeyPairFromSeed_def nacl_box_keyPair_fromSecretKey_def is_keypair_def
      split: if_splits)

lemma generateKeyPair_is_keypair:
  "generateKeyPair N r = (kp, r') \<Longrightarrow> is_keypair N kp"
  by (auto simp: generateKeyPair_def nacl_box_keyPair_def is_keypair_def randomBytes_def
      split: prod.splits)

section \<open>Verification of a document\<close>

text \<open>
  C1. Verify is meant to succeed exactly when the hash of the candidate plaintext equals
  the content hash recorded at upload. \<open>verifyDocument\<close> never looks at a recorded hash:
  once a contract is loaded it answers \<open>true\<close> for every hash it is given. Below, a
  one-byte file "b" is verified although its hash differs from the hash of the one-byte
  file "a".
\<close>

theorem verifyDocument_ignores_hash:
  "computeContentHash [0x62] \<noteq> computeContentHash [0x61] \<and>
   verify_action \<lparr>contract = Some ContractModule, isConnected = True\<rparr> [0x62] (replicate 64 CHR ''0'')
     = Inr True"
proof
  show "computeContentHash [0x62] \<noteq> computeContentHash [0x61]"
    by code_simp
  show "verify_action \<lparr>contract = Some ContractModule, isConnected = True\<rparr> [0x62]
          (replicate 64 CHR ''0'') = Inr True"
    by (simp add: verify_action_def verifyDocument_def)
qed

lemma verifyDocument_connected:
  "contract this \<noteq> None \<Longrightarrow> verifyDocument this documentId providedHash = Inr True"
  by (simp add: verifyDocument_def)

section \<open>Commitments\<close>

text \<open>
  C2, as stated: a commitment never equals the content hash of the same 32 bytes. It
  fails: at the all-zero key both commitments are the content hash of that key.
\<close>

theorem commitment_equals_content_hash:
  "length (replicate 32 (0::byte)) = 32 \<and>
   computeOwnerCommitment (replicate 32 0) = Inr (computeContentHash (replicate 32 0)) \<and>
   computePublicKeyCommitment (replicate 32 0) = computeContentHash (replicate 32 0)"
  by (simp add: computeOwnerCommitment_def computePublicKeyCommitment_def computeContentHash_def)

text \<open>
  C2, amended: the commitment derivation applies no domain-separation context. It is the
  plain SHA-256 digest of the key bytes, so for every 32-byte key \<open>K\<close> the owner
  commitment of \<open>K\<close>, the recipient commitment of \<open>K\<close> and the content hash of the byte
  string \<open>K\<close> are the same 32 bytes.
\<close>

theorem commitment_is_plain_sha256:
  assumes "length K = 32"
  shows "computeOwnerCommitment K = Inr (computeContentHash K) \<and>
         computePublicKeyCommitment K = computeContentHash K \<and>
         length (computeContentHash K) = 32"
  using assms
  by (simp add: computeOwnerCommitment_def computePublicKeyCommitment_def computeContentHash_def
      sha256_length)

theorem commitment_is_plain_sha256_witness:
  "length (replicate 32 (1::byte)) = 32 \<and>
   computeOwnerCommitment (replicate 32 1) = Inr (computeContentHash (replicate 32 1)) \<and>
   computePublicKeyCommitment (replicate 32 1) = computeContentHash (replicate 32 1) \<and>
   length (computeContentHash (replicate 32 (1::byte))) = 32"
  using commitment_is_plain_sha256 [of "replicate 32 1"] by simp

text \<open>
  C3. Every commitment-deriving operation is meant to fail with \<open>InvalidKeyLength\<close> on
  a key that is not 32 bytes long. \<open>computeOwnerCommitment\<close> does;
  \<open>computePublicKeyCommitment\<close> has no length check and returns a 32-byte digest for a
  31-byte key.
\<close>

theorem publicKeyCommitment_accepts_short_key:
  "length (replicate 31 (0::byte)) \<noteq> 32 \<and>
   length (computePublicKeyCommitment (replicate 31 0)) = 32 \<and>
   computeOwnerCommitment (replicate 31 0) = Inl InvalidKeyLength"
  by (simp add: computePublicKeyCommitment_def computeOwnerCommitment_def sha256_length)

lemma computeOwnerCommitment_checks_length:
  "(length sk \<noteq> 32 \<longrightarrow> computeOwnerCommitment sk = Inl InvalidKeyLength) \<and>
   (length sk = 32 \<longrightarrow> (\<exists>c. computeOwnerCommitment sk = Inr c \<and> length c = 32))"
  by (simp add: computeOwnerCommitment_def sha256_length)

lemma computePublicKeyCommitment_length: "length (computePublicKeyCommitment pk) = 32"
  by (simp add: computePublicKeyCommitment_def sha256_length)

section \<open>Parsing a public key\<close>

lemma hex_decode_length:
  "\<forall>c \<in> set hex. unhex c \<noteq> None \<Longrightarrow> length (hex_decode hex) = length hex div 2"
  by (induction hex rule: hex_decode.induct) (auto split: option.splits)

lemma hex_decode_length_le: "length (hex_decode hex) \<le> length hex div 2"
  by (induction hex rule: hex_decode.induct) (auto split: option.splits)

text \<open>
  The only check of \<open>parsePublicKeyHex\<close> is the number of characters. Sixty-four
  hexadecimal digits give the 32 bytes they spell.
\<close>

lemma parsePublicKeyHex_fails_iff:
  "parsePublicKeyHex hex = Inl InvalidEncoding \<longleftrightarrow> length hex \<noteq> 64"
  by (simp add: parsePublicKeyHex_def)

lemma parsePublicKeyHex_hex_digits:
  "length hex = 64 \<Longrightarrow> \<forall>c \<in> set hex. unhex c \<noteq> None \<Longrightarrow>
   parsePublicKeyHex hex = Inr (hex_decode hex) \<and> length (hex_decode hex) = 32"
  by (simp add: parsePublicKeyHex_def hex_decode_length)

text \<open>
  C4. \<open>parsePublicKeyHex\<close> is meant to fail with \<open>InvalidEncoding\<close> on every string that
  does not decode to exactly 32 bytes, strings of 64 characters that are not all
  hexadecimal digits included. On sixty-four letters \<open>z\<close> it does not fail: it returns
  the empty byte array.
\<close>

theorem parsePublicKeyHex_accepts_non_hex:
  "length (replicate 64 CHR ''z'') = 64 \<and> parsePublicKeyHex (replicate 64 CHR ''z'') = Inr []"
  by code_simp

section \<open>Symmetric round trip\<close>

text \<open>
  C5. For every byte string \<open>P\<close> and every 32-byte key \<open>K\<close>, encrypting \<open>P\<close> under \<open>K\<close>
  succeeds, whatever the random source holds, and decrypting the payload it returns
  with \<open>K\<close> gives back exactly \<open>P\<close>. AES-256-GCM itself is the library's; the property
  holds for every primitive that meets \<open>gcm_contract\<close>.
\<close>

theorem encrypt_decrypt_roundtrip:
  assumes "gcm_contract A" and "length K = 32"
  shows "\<exists>e r'. encryptData A P K r = (Inr e, r') \<and> decryptData A e K = Inr P"
proof -
  obtain iv0 r' where rb: "randomBytes 12 r = (iv0, r')"
    by (cases "randomBytes 12 r")
  then have len: "length iv0 = 12"
    by (rule randomBytes_length)
  obtain ct tag where seal: "gcm_seal A K iv0 P = (ct, tag)"
    by (cases "gcm_seal A K iv0 P")
  have enc: "encryptData A P K r = (Inr \<lparr>ciphertext = ct, iv = iv0, authTag = tag\<rparr>, r')"
    using assms(2) rb seal by (simp add: encryptData_def)
  from assms len
  have "gcm_open A K iv0 (snd (gcm_seal A K iv0 P)) (fst (gcm_seal A K iv0 P)) = Some P"
    unfolding gcm_contract_def by blast
  then have "gcm_open A K iv0 tag ct = Some P"
    by (simp add: seal)
  then have "decryptData A \<lparr>ciphertext = ct, iv = iv0, authTag = tag\<rparr> K = Inr P"
    using assms(2) by (simp add: decryptData_def)
  with enc show ?thesis by blast
qed

theorem encrypt_decrypt_roundtrip_witness:
  "gcm_contract xor_gcm \<and> length (replicate 32 (7::byte)) = 32 \<and>
   (\<exists>e r'. encryptData xor_gcm [104, 101, 108, 108, 111] (replicate 32 7) (sconst 0) = (Inr e, r') \<and>
            decryptData xor_gcm e (replicate 32 7) = Inr [104, 101, 108, 108, 111])"
  using encrypt_decrypt_roundtrip
      [OF xor_gcm_contract, of "replicate 32 7" "[104, 101, 108, 108, 111]" "sconst 0"]
    xor_gcm_contract
  by simp

section \<open>Wrap round trip\<close>

text \<open>
  C6. For every 32-byte document key \<open>D\<close>, every sender key pair \<open>S\<close> and every recipient
  key pair \<open>R\<close>, wrapping \<open>D\<close> for \<open>R\<close>'s public key with \<open>S\<close> succeeds, whatever the
  random source holds, and unwrapping the result with \<open>R\<close>'s secret key gives back
  exactly \<open>D\<close>. The box itself is the library's; the property holds for every primitive
  that meets \<open>nacl_contract\<close>.
\<close>

theorem wrap_unwrap_roundtrip:
  assumes lib: "nacl_contract N"
    and S: "is_keypair N S" and R: "is_keypair N R"
    and D: "length D = 32"
  shows "\<exists>w r'. wrapDocumentKey N D (publicKey R) S r = (Inr w, r') \<and>
           unwrapDocumentKey N w (secretKey R) = Inr D"
proof -
  obtain n r' where rb: "randomBytes 24 r = (n, r')"
    by (cases "randomBytes 24 r")
  then have n: "length n = 24"
    by (rule randomBytes_length)
  from S R have skS: "length (secretKey S) = 32" and skR: "length (secretKey R) = 32"
    and pkS: "publicKey S = crypto_scalarmult_base N (secretKey S)"
    and pkR: "publicKey R = crypto_scalarmult_base N (secretKey R)"
    by (simp_all add: is_keypair_def)
  from lib skS skR have lpkS: "length (publicKey S) = 32" and lpkR: "length (publicKey R) = 32"
    by (simp_all add: nacl_contract_def pkS pkR)
  let ?enc = "crypto_box N D n (publicKey R) (secretKey S)"
  let ?w = "\<lparr>encryptedKey = ?enc, nonce = n, senderPublicKey = publicKey S\<rparr>"
  have wrap: "wrapDocumentKey N D (publicKey R) S r = (Inr ?w, r')"
    using D rb n skS lpkR
    by (simp add: wrapDocumentKey_def nacl_box_def nacl_box_nonceLength_def)
  from lib n skS skR have "crypto_box_open N ?enc n (publicKey S) (secretKey R) = Some D"
    unfolding nacl_contract_def pkS pkR by blast
  then have "unwrapDocumentKey N ?w (secretKey R) = Inr D"
    using n skR lpkS by (simp add: unwrapDocumentKey_def nacl_box_open_def)
  with wrap show ?thesis by blast
qed

theorem wrap_unwrap_roundtrip_witness:
  "nacl_contract shift_nacl \<and>
   is_keypair shift_nacl \<lparr>publicKey = replicate 32 10, secretKey = replicate 32 1\<rparr> \<and>
   is_keypair shift_nacl \<lparr>publicKey = replicate 32 11, secretKey = replicate 32 2\<rparr> \<and>
   length (replicate 32 (3::byte)) = 32 \<and>
   (\<exists>w r'. wrapDocumentKey shift_nacl (replicate 32 3) (replicate 32 11)
              \<lparr>publicKey = replicate 32 10, secretKey = replicate 32 1\<rparr> (sconst 0) = (Inr w, r') \<and>
            unwrapDocumentKey shift_nacl w (replicate 32 2) = Inr (replicate 32 3))"
proof -
  have S: "is_keypair shift_nacl \<lparr>publicKey = replicate 32 10, secretKey = replicate 32 1\<rparr>"
    by (simp add: is_keypair_def shift_nacl_def)
  have R: "is_keypair shift_nacl \<lparr>publicKey = replicate 32 11, secretKey = replicate 32 2\<rparr>"
    by (simp add: is_keypair_def shift_nacl_def)
  have D: "length (replicate 32 (3::byte)) = 32"
    by simp
  show ?thesis
    using wrap_unwrap_roundtrip [OF shift_nacl_contract S R D, of "sconst 0"] shift_nacl_contract S R
    by simp
qed

section \<open>Unpacking\<close>

text \<open>
  C7. \<open>unpackEncryptedData\<close> fails with \<open>MalformedPayload\<close> exactly when its input is
  shorter than 28 bytes. On an input of at least 28 bytes it returns the first 12 bytes
  as the nonce, the next 16 as the tag and everything from offset 28 on as the
  ciphertext, which is empty when the input has exactly 28 bytes.
\<close>

theorem unpack_boundary:
  "(unpackEncryptedData packed = Inl MalformedPayload \<longleftrightarrow> length packed < 28) \<and>
   (28 \<le> length packed \<longrightarrow>
      unpackEncryptedData packed =
        Inr \<lparr>ciphertext = drop 28 packed, iv = take 12 packed, authTag = take 16 (drop 12 packed)\<rparr> \<and>
      length (take 12 packed) = 12 \<and> length (take 16 (drop 12 packed)) = 16) \<and>
   (length packed = 28 \<longrightarrow>
      (\<exists>e. unpackEncryptedData packed = Inr e \<and> ciphertext e = []))"
  by (auto simp: unpackEncryptedData_def subarray_def subarray_from_def)

theorem unpack_boundary_witness:
  "unpackEncryptedData (replicate 27 7) = Inl MalformedPayload \<and>
   unpackEncryptedData (replicate 28 7) =
     Inr \<lparr>ciphertext = [], iv = replicate 12 7, authTag = replicate 16 7\<rparr> \<and>
   unpackEncryptedData (replicate 12 1 @ replicate 16 2 @ [3, 4]) =
     Inr \<lparr>ciphertext = [3, 4], iv = replicate 12 1, authTag = replicate 16 2\<rparr>"
  using unpack_boundary [of "replicate 27 7"] unpack_boundary [of "replicate 28 7"]
    unpack_boundary [of "replicate 12 1 @ replicate 16 2 @ [3, 4]"]
  by simp

section \<open>Key pairs from a seed\<close>

text \<open>
  C8. \<open>generateKeyPairFromSeed\<close> is deterministic: two calls whose seeds are the same 32
  bytes return the same key pair. It fails with \<open>InvalidSeedLength\<close> on every seed that
  is not 32 bytes long.
\<close>

theorem generateKeyPairFromSeed_deterministic:
  "(length seed1 = 32 \<and> seed2 = seed1 \<longrightarrow>
      (\<exists>kp. generateKeyPairFromSeed N seed1 = Inr kp \<and> generateKeyPairFromSeed N seed2 = Inr kp)) \<and>
   (length seed1 \<noteq> 32 \<longrightarrow> generateKeyPairFromSeed N seed1 = Inl InvalidSeedLength)"
  by (simp add: generateKeyPairFromSeed_def nacl_box_keyPair_fromSecretKey_def)

theorem generateKeyPairFromSeed_deterministic_witness:
  "(\<exists>kp. generateKeyPairFromSeed shift_nacl (replicate 32 1) = Inr kp \<and>
         generateKeyPairFromSeed shift_nacl (replicate 32 1) = Inr kp) \<and>
   generateKeyPairFromSeed shift_nacl (replicate 31 1) = Inl InvalidSeedLength"
  using generateKeyPairFromSeed_deterministic [of "replicate 32 1" "replicate 32 1" shift_nacl]
    generateKeyPairFromSeed_deterministic [of "replicate 31 1" "replicate 31 1" shift_nacl]
  by simp

text \<open>
  C10. For every 32-byte seed the key pair that \<open>generateKeyPairFromSeed\<close> returns has
  the seed itself as its secret key, byte for byte, and the public key derived from
  that secret key.
\<close>

theorem generateKeyPairFromSeed_secretKey_is_seed:
  assumes "length seed = 32"
  shows "\<exists>kp. generateKeyPairFromSeed N seed = Inr kp \<and> secretKey kp = seed \<and>
           publicKey kp = crypto_scalarmult_base N (secretKey kp)"
  using assms by (simp add: generateKeyPairFromSeed_def nacl_box_keyPair_fromSecretKey_def)

theorem generateKeyPairFromSeed_secretKey_is_seed_witness:
  "length (replicate 32 (5::byte)) = 32 \<and>
   (\<exists>kp. generateKeyPairFromSeed shift_nacl (replicate 32 5) = Inr kp \<and>
         secretKey kp = replicate 32 5 \<and>
         publicKey kp = crypto_scalarmult_base shift_nacl (secretKey kp))"
  using generateKeyPairFromSeed_secretKey_is_seed [of "replicate 32 5" shift_nacl] by simp

section \<open>The document identifier\<close>

text \<open>
  The identifier of an upload is the SHA-256 digest of the content hash followed by the
  16 bytes drawn from the random source; it has 32 bytes.
\<close>

lemma upload_documentId_eq:
  "upload_documentId fileData r = (sha256 (sha256 fileData @ stake 16 r), sdrop 16 r)"
  by (simp add: upload_documentId_def randomBytes_def computeContentHash_def)

lemma upload_documentId_length:
  "upload_documentId fileData r = (docId, r') \<Longrightarrow> length docId = 32"
  by (auto simp: upload_documentId_eq sha256_length)

end
